theory Spec2Isabelle
  imports Main "HOL-Library.Word"
begin

section \<open>YAVS: a minimal append-only vector store file format\<close>

text \<open>
  The development embeds \<^verbatim>\<open>python/yavs.py\<close> (the store format library) and
  \<^verbatim>\<open>python/example.py\<close> (the demonstration driver).

  \<^item> A file is the list of its bytes; the file system is a map from paths to files.
    Opening an absent path for reading raises \<open>FileNotFoundError\<close>; every path can be
    opened for writing.
  \<^item> Every \<^verbatim>\<open>raise\<close> of the source, and every exception of \<^verbatim>\<open>struct.pack\<close>,
    \<^verbatim>\<open>struct.unpack\<close>, \<^verbatim>\<open>file.write\<close> and \<^verbatim>\<open>str.encode\<close>, is a value of
    type \<open>error\<close>. An operation that writes returns the error (if any) together with the
    file system it leaves behind: a \<^verbatim>\<open>with open(...)\<close> block closes the file when an
    exception leaves it, so the bytes written before the exception stay in the file.
  \<^item> Python integers are unbounded: \<open>int\<close>.
\<close>

subsection \<open>Bytes, errors, files\<close>

type_synonym byte = "8 word"

datatype error =
    FileNotFoundError
  | ValueError string
  | StructError
  | OverflowError
  | TypeError
  | UnicodeEncodeError
  | AttributeError string

type_synonym contents = "byte list"
type_synonym fs = "string \<rightharpoonup> contents"

subsection \<open>Little-endian integers: \<^verbatim>\<open>struct.pack\<close> and \<^verbatim>\<open>struct.unpack\<close>\<close>

fun le_bytes :: "nat \<Rightarrow> nat \<Rightarrow> byte list" where
  "le_bytes 0 v = []"
| "le_bytes (Suc k) v = of_nat (v mod 256) # le_bytes k (v div 256)"

fun le_value :: "byte list \<Rightarrow> nat" where
  "le_value [] = 0"
| "le_value (b # bs) = unat b + 256 * le_value bs"

text \<open>\<^verbatim>\<open>struct.pack("<I", v)\<close>: an unsigned 32-bit field; a value out of range raises.\<close>

definition pack_I :: "int \<Rightarrow> error + byte list" where
  "pack_I v = (if 0 \<le> v \<and> v < 2 ^ 32 then Inr (le_bytes 4 (nat v)) else Inl StructError)"

text \<open>\<^verbatim>\<open>struct.pack("<Q", v)\<close>: an unsigned 64-bit field.\<close>

definition pack_Q :: "int \<Rightarrow> error + byte list" where
  "pack_Q v = (if 0 \<le> v \<and> v < 2 ^ 64 then Inr (le_bytes 8 (nat v)) else Inl StructError)"

text \<open>\<^verbatim>\<open>struct.unpack("<I", bs)[0]\<close>: the buffer must have exactly 4 bytes.\<close>

definition unpack_I :: "byte list \<Rightarrow> error + int" where
  "unpack_I bs = (if length bs = 4 then Inr (int (le_value bs)) else Inl StructError)"

text \<open>\<^verbatim>\<open>struct.unpack("<Q", bs)[0]\<close>: the buffer must have exactly 8 bytes.\<close>

definition unpack_Q :: "byte list \<Rightarrow> error + int" where
  "unpack_Q bs = (if length bs = 8 then Inr (int (le_value bs)) else Inl StructError)"

subsection \<open>Decimal rendering of integers in messages\<close>

definition digit :: "nat \<Rightarrow> char" where
  "digit n = char_of (48 + n)"

function dec :: "nat \<Rightarrow> string" where
  "dec n = (if n < 10 then [digit n] else dec (n div 10) @ [digit (n mod 10)])"
  by pat_completeness auto
termination
  by (relation "measure id") auto

declare dec.simps [simp del]

text \<open>\<^verbatim>\<open>str(i)\<close>, as an f-string renders an integer.\<close>

definition str :: "int \<Rightarrow> string" where
  "str i = (if i < 0 then CHR ''-'' # dec (nat (- i)) else dec (nat i))"

subsection \<open>Constants\<close>

definition MAGIC :: "byte list" where
  "MAGIC = [0x59, 0x41, 0x56, 0x53]"

definition VERSION :: int where
  "VERSION = 1"

definition RESERVED_SIZE :: nat where
  "RESERVED_SIZE = 16"


subsection \<open>\<^verbatim>\<open>create\<close>\<close>

text \<open>
  \<^verbatim>\<open>open(filename, "wb")\<close> truncates the file; the five writes follow. Each
  \<^verbatim>\<open>struct.pack\<close> may raise, and then the file keeps what was written so far.
\<close>

definition create :: "fs \<Rightarrow> string \<Rightarrow> int \<Rightarrow> error option \<times> fs" where
  "create fs filename dim =
     (let f = [] @ MAGIC in
      case pack_I VERSION of
        Inl e \<Rightarrow> (Some e, fs(filename \<mapsto> f))
      | Inr v \<Rightarrow>
          let f = f @ v in
          (case pack_Q 0 of
             Inl e \<Rightarrow> (Some e, fs(filename \<mapsto> f))
           | Inr c \<Rightarrow>
               let f = f @ c in
               (case pack_I dim of
                  Inl e \<Rightarrow> (Some e, fs(filename \<mapsto> f))
                | Inr d \<Rightarrow>
                    let f = f @ d in
                    (None, fs(filename \<mapsto> f @ replicate RESERVED_SIZE 0)))))"

subsection \<open>\<^verbatim>\<open>get_header_info\<close>\<close>

text \<open>
  A file opened for reading is its content and a position; \<^verbatim>\<open>f.read(n)\<close> returns at
  most \<open>n\<close> bytes from the position and advances by what it returned.
\<close>

definition fread :: "contents \<times> nat \<Rightarrow> nat \<Rightarrow> byte list \<times> (contents \<times> nat)" where
  "fread h n =
     (case h of (f, pos) \<Rightarrow>
        let bs = take n (drop pos f) in (bs, (f, pos + length bs)))"

definition get_header_info :: "fs \<Rightarrow> string \<Rightarrow> error + (int \<times> int)" where
  "get_header_info fs filename =
     (case fs filename of
        None \<Rightarrow> Inl FileNotFoundError
      | Some content \<Rightarrow>
          let f = (content, 0);
              (magic, f) = fread f 4 in
          if magic \<noteq> MAGIC then Inl (ValueError ''Not a valid YAVS file.'')
          else
            let (bs, f) = fread f 4 in
            (case unpack_I bs of
               Inl e \<Rightarrow> Inl e
             | Inr version \<Rightarrow>
                 if version \<noteq> VERSION then
                   Inl (ValueError (''File version mismatch. Expected '' @ str VERSION
                                    @ '', got '' @ str version @ ''.''))
                 else
                   let (bs, f) = fread f 8 in
                   (case unpack_Q bs of
                      Inl e \<Rightarrow> Inl e
                    | Inr n_records \<Rightarrow>
                        let (bs, f) = fread f 4 in
                        (case unpack_I bs of
                           Inl e \<Rightarrow> Inl e
                         | Inr dim \<Rightarrow> Inr (n_records, dim)))))"

subsection \<open>Values supplied by the environment of \<^verbatim>\<open>insert\<close>\<close>

text \<open>
  \<^verbatim>\<open>uuid.uuid4()\<close> is a random 128-bit identifier; the model takes its integer value
  as an argument. \<^verbatim>\<open>.bytes\<close> is that value as 16 bytes, most significant first.
\<close>

definition uuid_bytes :: "128 word \<Rightarrow> byte list" where
  "uuid_bytes u = rev (le_bytes 16 (unat u))"

text \<open>
  The \<^verbatim>\<open>metadata\<close> argument is annotated \<^verbatim>\<open>bytes\<close>, and the driver passes a
  \<^verbatim>\<open>str\<close>. A \<^verbatim>\<open>str\<close> is a sequence of Unicode code points (numbers below
  \<open>0x110000\<close>), and \<^verbatim>\<open>len\<close> of it counts code points.
\<close>

datatype metadata = Bytes "byte list" | Text "nat list"

definition len :: "metadata \<Rightarrow> int" where
  "len m = (case m of Bytes bs \<Rightarrow> int (length bs) | Text cs \<Rightarrow> int (length cs))"

text \<open>
  \<^verbatim>\<open>f.write(x)\<close> on a binary file takes a bytes-like object and raises
  \<open>TypeError\<close> for a \<^verbatim>\<open>str\<close>.
\<close>

definition bytes_like :: "metadata \<Rightarrow> error + byte list" where
  "bytes_like m = (case m of Bytes bs \<Rightarrow> Inr bs | Text cs \<Rightarrow> Inl TypeError)"

text \<open>UTF-8 of one code point; a surrogate (\<open>0xD800\<close> to \<open>0xDFFF\<close>) cannot be encoded.\<close>

definition utf8_char :: "nat \<Rightarrow> error + byte list" where
  "utf8_char c =
     (if c < 0x80 then Inr [of_nat c]
      else if c < 0x800 then Inr [of_nat (0xC0 + c div 64), of_nat (0x80 + c mod 64)]
      else if 0xD800 \<le> c \<and> c \<le> 0xDFFF then Inl UnicodeEncodeError
      else if c < 0x10000 then
        Inr [of_nat (0xE0 + c div 4096), of_nat (0x80 + c div 64 mod 64),
             of_nat (0x80 + c mod 64)]
      else
        Inr [of_nat (0xF0 + c div 262144), of_nat (0x80 + c div 4096 mod 64),
             of_nat (0x80 + c div 64 mod 64), of_nat (0x80 + c mod 64)])"

fun utf8 :: "nat list \<Rightarrow> error + byte list" where
  "utf8 [] = Inr []"
| "utf8 (c # cs) =
     (case utf8_char c of
        Inl e \<Rightarrow> Inl e
      | Inr bs \<Rightarrow> (case utf8 cs of Inl e \<Rightarrow> Inl e | Inr rest \<Rightarrow> Inr (bs @ rest)))"

text \<open>\<^verbatim>\<open>metadata.encode("utf-8")\<close>; \<^verbatim>\<open>bytes\<close> has no such method.\<close>

definition encode :: "metadata \<Rightarrow> error + byte list" where
  "encode m = (case m of Text cs \<Rightarrow> utf8 cs | Bytes bs \<Rightarrow> Inl (AttributeError ''encode''))"

text \<open>
  \<^verbatim>\<open>struct.pack("<" + "f" * dim, *embedding)\<close>. How one value becomes the 4 bytes of
  an IEEE-754 single, and which values are refused (\<open>StructError\<close> for a value that is not
  a number, \<open>OverflowError\<close> for one too large), is the \<^verbatim>\<open>struct\<close> module's; it is
  the parameter \<open>packf\<close>. The values are packed left to right, and the number of values
  must be the number of \<^verbatim>\<open>f\<close> in the format.
\<close>

fun pack_each :: "('v \<Rightarrow> error + byte list) \<Rightarrow> 'v list \<Rightarrow> error + byte list" where
  "pack_each packf [] = Inr []"
| "pack_each packf (x # xs) =
     (case packf x of
        Inl e \<Rightarrow> Inl e
      | Inr bs \<Rightarrow> (case pack_each packf xs of Inl e \<Rightarrow> Inl e | Inr rest \<Rightarrow> Inr (bs @ rest)))"

definition pack_f :: "('v \<Rightarrow> error + byte list) \<Rightarrow> int \<Rightarrow> 'v list \<Rightarrow> error + byte list" where
  "pack_f packf dim embedding =
     (if length embedding \<noteq> nat dim then Inl StructError else pack_each packf embedding)"

text \<open>
  One instance of \<open>packf\<close>, for concrete runs: a value is either a number that is a
  single already, given by its bit pattern, or not a number at all, which
  \<^verbatim>\<open>struct.pack\<close> refuses.
\<close>

datatype pyvalue = Single "32 word" | NotAFloat

definition pack_value :: "pyvalue \<Rightarrow> error + byte list" where
  "pack_value x = (case x of Single w \<Rightarrow> Inr (le_bytes 4 (unat w)) | NotAFloat \<Rightarrow> Inl StructError)"

subsection \<open>\<^verbatim>\<open>insert\<close>\<close>

text \<open>
  \<^verbatim>\<open>f.seek(pos); f.write(bs)\<close> on a file opened \<^verbatim>\<open>"r+b"\<close>: the bytes replace what
  is at \<open>pos\<close>, and extend the file where they reach beyond its end.
\<close>

definition write_at :: "contents \<Rightarrow> nat \<Rightarrow> byte list \<Rightarrow> contents" where
  "write_at f pos bs =
     take pos f @ replicate (pos - length f) 0 @ bs @ drop (pos + length bs) f"

text \<open>\<^verbatim>\<open>open(filename, "ab")\<close> creates an absent file, empty; every write goes to the end.\<close>

definition open_ab :: "fs \<Rightarrow> string \<Rightarrow> contents" where
  "open_ab fs filename = (case fs filename of None \<Rightarrow> [] | Some f \<Rightarrow> f)"

definition insert_yavs ::
  "('v \<Rightarrow> error + byte list) \<Rightarrow> fs \<Rightarrow> string \<Rightarrow> 'v list \<Rightarrow> metadata \<Rightarrow> byte list option
     \<Rightarrow> 128 word \<Rightarrow> error option \<times> fs" where
  "insert_yavs packf fs filename embedding metadata record_id uuid4 =
     (case get_header_info fs filename of
        Inl e \<Rightarrow> (Some e, fs)
      | Inr (n_records, dim) \<Rightarrow>
          if int (length embedding) \<noteq> dim then
            (Some (ValueError (''Embedding dimension mismatch. Expected '' @ str dim
                               @ '', got '' @ str (int (length embedding)))), fs)
          else
            let record_id = (case record_id of None \<Rightarrow> uuid_bytes uuid4 | Some r \<Rightarrow> r) in
            if length record_id \<noteq> 16 then (Some (ValueError ''Record ID must be 16 bytes.''), fs)
            else
              (case pack_f packf dim embedding of
                 Inl e \<Rightarrow> (Some e, fs)
               | Inr embedding_bytes \<Rightarrow>
                   let meta_len = len metadata;
                       f = open_ab fs filename;
                       f = f @ record_id;
                       f = f @ embedding_bytes
                   in
                   (case pack_I meta_len of
                      Inl e \<Rightarrow> (Some e, fs(filename \<mapsto> f))
                    | Inr ml \<Rightarrow>
                        let f = f @ ml in
                        (case (case bytes_like metadata of
                                 Inr bs \<Rightarrow> Inr bs
                               | Inl TypeError \<Rightarrow> encode metadata
                               | Inl e \<Rightarrow> Inl e) of
                           Inl e \<Rightarrow> (Some e, fs(filename \<mapsto> f))
                         | Inr bs \<Rightarrow>
                             let f = f @ bs in
                             (case pack_Q (n_records + 1) of
                                Inl e \<Rightarrow> (Some e, fs(filename \<mapsto> f))
                              | Inr cnt \<Rightarrow> (None, fs(filename \<mapsto> write_at f (4 + 4) cnt)))))))"

text \<open>
  The bytes that the \<^verbatim>\<open>try\<close>/\<^verbatim>\<open>except TypeError\<close> of \<^verbatim>\<open>insert\<close> writes for
  a metadata value: the value itself when it is bytes, its UTF-8 encoding when it is text.
\<close>

definition payload :: "metadata \<Rightarrow> error + byte list" where
  "payload m = (case m of Bytes bs \<Rightarrow> Inr bs | Text cs \<Rightarrow> utf8 cs)"

subsection \<open>Sequences of calls\<close>

text \<open>
  A program that makes one \<^verbatim>\<open>insert\<close> call after another on the same path: the first
  exception ends it. A call is its arguments and the identifier \<^verbatim>\<open>uuid4\<close> would draw.
\<close>

type_synonym 'v call = "'v list \<times> metadata \<times> byte list option \<times> 128 word"

fun inserts ::
  "('v \<Rightarrow> error + byte list) \<Rightarrow> fs \<Rightarrow> string \<Rightarrow> 'v call list \<Rightarrow> error option \<times> fs" where
  "inserts packf fs filename [] = (None, fs)"
| "inserts packf fs filename ((embedding, metadata, record_id, uuid4) # calls) =
     (case insert_yavs packf fs filename embedding metadata record_id uuid4 of
        (Some e, fs') \<Rightarrow> (Some e, fs')
      | (None, fs') \<Rightarrow> inserts packf fs' filename calls)"

text \<open>
  Any sequence of \<^verbatim>\<open>insert\<close> and \<^verbatim>\<open>get_header_info\<close> calls on a path, each call on
  its own: a call that raises leaves the file as it is at that moment, and the next call
  runs on that file. \<^verbatim>\<open>get_header_info\<close> opens the file for reading only.
\<close>

datatype 'v operation =
    OpInsert "'v list" metadata "byte list option" "128 word"
  | OpGetHeaderInfo

fun run_ops ::
  "('v \<Rightarrow> error + byte list) \<Rightarrow> fs \<Rightarrow> string \<Rightarrow> 'v operation list \<Rightarrow> fs" where
  "run_ops packf fs filename [] = fs"
| "run_ops packf fs filename (OpInsert embedding metadata record_id uuid4 # ops) =
     run_ops packf (snd (insert_yavs packf fs filename embedding metadata record_id uuid4))
       filename ops"
| "run_ops packf fs filename (OpGetHeaderInfo # ops) = run_ops packf fs filename ops"

subsection \<open>The demonstration driver, \<^verbatim>\<open>example.py\<close>\<close>

text \<open>
  What the name \<^verbatim>\<open>yavs.<name>\<close> resolves to: the module's namespace holds the two
  imported modules, the four constants and the three functions.
\<close>

datatype yavs_attr = Module | Constant | Create | GetHeaderInfo | Insert

definition yavs_namespace :: "(string \<times> yavs_attr) list" where
  "yavs_namespace =
     [(''struct'', Module), (''uuid'', Module),
      (''MAGIC'', Constant), (''VERSION'', Constant), (''RESERVED_SIZE'', Constant),
      (''HEADER_SIZE'', Constant),
      (''create'', Create), (''get_header_info'', GetHeaderInfo), (''insert'', Insert)]"

text \<open>
  \<^verbatim>\<open>yavs.<name>(a1, a2, a3)\<close>: the attribute lookup raises \<open>AttributeError\<close> for a
  name the module does not have; of the module's attributes, only \<^verbatim>\<open>insert\<close> can be
  called with three arguments.
\<close>

definition call_yavs3 ::
  "('v \<Rightarrow> error + byte list) \<Rightarrow> string \<Rightarrow> fs \<Rightarrow> string \<Rightarrow> 'v list \<Rightarrow> metadata
     \<Rightarrow> 128 word \<Rightarrow> error option \<times> fs" where
  "call_yavs3 packf name fs a1 a2 a3 uuid4 =
     (case map_of yavs_namespace name of
        None \<Rightarrow> (Some (AttributeError name), fs)
      | Some Insert \<Rightarrow> insert_yavs packf fs a1 a2 a3 None uuid4
      | Some _ \<Rightarrow> (Some TypeError, fs))"

text \<open>
  The script. \<open>model_encode\<close> is the external embedding model
  (\<^verbatim>\<open>SentenceTransformer(...).encode\<close>); \<open>u1\<close> and \<open>u2\<close> are the identifiers that
  \<^verbatim>\<open>uuid4\<close> would draw in the two calls.
\<close>

definition example ::
  "(string \<Rightarrow> 'v list) \<Rightarrow> ('v \<Rightarrow> error + byte list) \<Rightarrow> fs \<Rightarrow> 128 word \<Rightarrow> 128 word
     \<Rightarrow> error option \<times> fs" where
  "example model_encode packf fs u1 u2 =
     (let fname = ''db.yavs'';
          dimension = 384;
          (err, fs) = (if fs fname = None then create fs fname dimension else (None, fs))
      in case err of
           Some e \<Rightarrow> (Some e, fs)
         | None \<Rightarrow>
             let text = ''My first record'';
                 embedding = model_encode text;
                 (err, fs) = call_yavs3 packf ''append'' fs fname embedding
                               (Text (map of_char text)) u1
             in case err of
                  Some e \<Rightarrow> (Some e, fs)
                | None \<Rightarrow>
                    let text = ''Another piece of data'';
                        embedding = model_encode text
                    in call_yavs3 packf ''append'' fs fname embedding
                         (Text (map of_char text)) u2)"

section \<open>Properties\<close>

subsection \<open>Little-endian fields\<close>

lemma length_le_bytes [simp]: "length (le_bytes k v) = k"
  by (induction k arbitrary: v) auto

lemma le_value_le_bytes: "v < 256 ^ k \<Longrightarrow> le_value (le_bytes k v) = v"
proof (induction k arbitrary: v)
  case 0
  then show ?case by simp
next
  case (Suc k)
  have "v div 256 < 256 ^ k"
    using Suc.prems by (simp add: less_mult_imp_div_less mult.commute)
  then have "le_value (le_bytes k (v div 256)) = v div 256"
    by (rule Suc.IH)
  moreover have "unat (of_nat (v mod 256) :: byte) = v mod 256"
    by (simp add: unat_of_nat)
  ultimately show ?case by simp
qed

lemma length_MAGIC [simp]: "length MAGIC = 4"
  by (simp add: MAGIC_def)

lemma length_uuid_bytes [simp]: "length (uuid_bytes u) = 16"
  by (simp add: uuid_bytes_def)

subsection \<open>What \<^verbatim>\<open>get_header_info\<close> computes\<close>

text \<open>
  The reads are at offsets 0, 4, 8 and 16: a read that returns fewer bytes than asked
  makes the check or the \<^verbatim>\<open>unpack\<close> after it raise, so the position at each read that
  is reached is the one the layout gives.
\<close>

lemma get_header_info_alt:
  "get_header_info fs filename =
     (case fs filename of
        None \<Rightarrow> Inl FileNotFoundError
      | Some c \<Rightarrow>
          if take 4 c \<noteq> MAGIC then Inl (ValueError ''Not a valid YAVS file.'')
          else if length c < 8 then Inl StructError
          else if int (le_value (take 4 (drop 4 c))) \<noteq> 1 then
            Inl (ValueError (''File version mismatch. Expected 1, got ''
                             @ str (int (le_value (take 4 (drop 4 c)))) @ ''.''))
          else if length c < 20 then Inl StructError
          else Inr (int (le_value (take 8 (drop 8 c))), int (le_value (take 4 (drop 16 c)))))"
proof (cases "fs filename")
  case None
  then show ?thesis by (simp add: get_header_info_def)
next
  case (Some c)
  show ?thesis
  proof (cases "take 4 c = MAGIC")
    case False
    with Some show ?thesis by (simp add: get_header_info_def fread_def)
  next
    case True
    then have l4: "4 \<le> length c"
      by (metis length_MAGIC length_take min.cobounded1)
    have "dec 1 = ''1''"
      by code_simp
    then have str1: "str 1 = ''1''"
      by (simp add: str_def)
    show ?thesis
      using Some True l4
      by (auto simp add: get_header_info_def fread_def unpack_I_def unpack_Q_def VERSION_def
          str1 min_def Let_def split: sum.splits)
  qed
qed

lemma header_ok_length:
  "get_header_info fs p = Inr (n, d) \<Longrightarrow>
     \<exists>c. fs p = Some c \<and> 20 \<le> length c \<and> 0 \<le> n \<and> 0 \<le> d"
  by (auto simp add: get_header_info_alt split: option.splits if_splits)

subsection \<open>What \<^verbatim>\<open>insert\<close> computes\<close>

lemma write_at_header:
  assumes "16 \<le> length c" and "length cnt = 8"
  shows "write_at (c @ app) (4 + 4) cnt = take 8 c @ cnt @ drop 16 c @ app"
  using assms by (simp add: write_at_def)

lemma payload_alt:
  "(case bytes_like m of Inr bs \<Rightarrow> Inr bs | Inl TypeError \<Rightarrow> encode m | Inl e \<Rightarrow> Inl e)
     = payload m"
  by (cases m) (simp_all add: bytes_like_def encode_def payload_def)

lemma len_nonneg: "0 \<le> len m"
  by (cases m) (simp_all add: len_def)

text \<open>
  Every way out of \<^verbatim>\<open>insert\<close>, with the file it leaves: the three checks and the
  packing of the embedding come before the file is opened; the pack of the metadata
  length, the encoding of a text and the pack of the new count come after bytes were
  appended.
\<close>

lemma insert_yavs_alt:
  "insert_yavs packf fs p emb md rid u =
     (case get_header_info fs p of
        Inl e \<Rightarrow> (Some e, fs)
      | Inr (n, d) \<Rightarrow>
          if int (length emb) \<noteq> d then
            (Some (ValueError (''Embedding dimension mismatch. Expected '' @ str d
                               @ '', got '' @ str (int (length emb)))), fs)
          else if length (case rid of None \<Rightarrow> uuid_bytes u | Some r \<Rightarrow> r) \<noteq> 16 then
            (Some (ValueError ''Record ID must be 16 bytes.''), fs)
          else
            (case pack_each packf emb of
               Inl e \<Rightarrow> (Some e, fs)
             | Inr eb \<Rightarrow>
                 let c = the (fs p);
                     r = (case rid of None \<Rightarrow> uuid_bytes u | Some r \<Rightarrow> r) in
                 if \<not> len md < 2 ^ 32 then (Some StructError, fs(p \<mapsto> c @ r @ eb))
                 else
                   (case payload md of
                      Inl e \<Rightarrow> (Some e, fs(p \<mapsto> c @ r @ eb @ le_bytes 4 (nat (len md))))
                    | Inr pb \<Rightarrow>
                        if \<not> n + 1 < 2 ^ 64 then
                          (Some StructError,
                           fs(p \<mapsto> c @ r @ eb @ le_bytes 4 (nat (len md)) @ pb))
                        else
                          (None, fs(p \<mapsto> take 8 c @ le_bytes 8 (nat (n + 1)) @ drop 16 c
                                          @ r @ eb @ le_bytes 4 (nat (len md)) @ pb)))))"
proof (cases "get_header_info fs p")
  case (Inl e)
  then show ?thesis by (simp add: insert_yavs_def)
next
  case (Inr nd)
  obtain n d where nd: "nd = (n, d)" by (cases nd)
  from Inr nd obtain c where c: "fs p = Some c" "20 \<le> length c" "0 \<le> n" "0 \<le> d"
    using header_ok_length by blast
  have w: "\<And>app cnt. length cnt = 8 \<Longrightarrow>
      write_at (c @ app) (4 + 4) cnt = take 8 c @ cnt @ drop 16 c @ app"
    using c(2) by (intro write_at_header) simp_all
  show ?thesis
    using Inr nd c len_nonneg [of md]
    by (auto simp add: insert_yavs_def payload_alt pack_f_def pack_I_def pack_Q_def open_ab_def
        Let_def w [simplified] split: sum.splits option.splits)
qed

subsection \<open>What \<^verbatim>\<open>create\<close> writes\<close>

lemma create_in_range:
  assumes "0 \<le> dim" and "dim < 2 ^ 32"
  shows "create fs p dim =
           (None, fs(p \<mapsto> MAGIC @ le_bytes 4 (nat VERSION) @ le_bytes 8 0 @ le_bytes 4 (nat dim)
                            @ replicate 16 0))"
  using assms by (simp add: create_def pack_I_def pack_Q_def VERSION_def RESERVED_SIZE_def)

lemma create_out_of_range:
  assumes "\<not> (0 \<le> dim \<and> dim < 2 ^ 32)"
  shows "create fs p dim
           = (Some StructError, fs(p \<mapsto> MAGIC @ le_bytes 4 (nat VERSION) @ le_bytes 8 0))"
  using assms by (auto simp add: create_def pack_I_def pack_Q_def VERSION_def)

lemma le_value_zero8: "le_value (le_bytes 8 0) = 0"
  by (rule le_value_le_bytes) simp

lemma le_value_version [simp]: "le_value (le_bytes 4 (nat VERSION)) = Suc 0"
proof -
  have "le_value (le_bytes 4 (nat VERSION)) = nat VERSION"
    by (rule le_value_le_bytes) (simp add: VERSION_def)
  then show ?thesis by (simp add: VERSION_def)
qed

lemma le_value_dim:
  assumes "0 \<le> dim" and "dim < 2 ^ 32"
  shows "int (le_value (le_bytes 4 (nat dim))) = dim"
proof -
  have "nat dim < 256 ^ 4" using assms by simp
  then have "le_value (le_bytes 4 (nat dim)) = nat dim" by (rule le_value_le_bytes)
  with assms show ?thesis by simp
qed

lemma header_of_fresh_store:
  assumes "0 \<le> dim" and "dim < 2 ^ 32"
  shows "get_header_info (fs(p \<mapsto> MAGIC @ le_bytes 4 (nat VERSION) @ le_bytes 8 0
                                   @ le_bytes 4 (nat dim) @ replicate 16 0)) p = Inr (0, dim)"
  using assms
  by (simp add: get_header_info_alt le_value_zero8 le_value_dim)

subsection \<open>Calls of \<^verbatim>\<open>insert\<close> that return, and the header after them\<close>

text \<open>A call that returns: what it found and what it wrote.\<close>

lemma insert_success:
  assumes "insert_yavs packf fs p emb md rid u = (None, fs')"
  shows "\<exists>c n d eb pb.
           fs p = Some c \<and> 20 \<le> length c \<and> get_header_info fs p = Inr (n, d)
           \<and> int (length emb) = d \<and> 0 \<le> n \<and> n + 1 < 2 ^ 64
           \<and> length (case rid of None \<Rightarrow> uuid_bytes u | Some r \<Rightarrow> r) = 16
           \<and> pack_each packf emb = Inr eb \<and> len md < 2 ^ 32 \<and> payload md = Inr pb
           \<and> fs' = fs(p \<mapsto> take 8 c @ le_bytes 8 (nat (n + 1)) @ drop 16 c
                             @ (case rid of None \<Rightarrow> uuid_bytes u | Some r \<Rightarrow> r)
                             @ eb @ le_bytes 4 (nat (len md)) @ pb)"
proof (cases "get_header_info fs p")
  case (Inl e)
  with assms show ?thesis by (simp add: insert_yavs_alt)
next
  case (Inr nd)
  obtain n d where nd: "nd = (n, d)" by (cases nd)
  from Inr nd obtain c where c: "fs p = Some c" "20 \<le> length c" "0 \<le> n"
    using header_ok_length by blast
  show ?thesis
    using assms Inr nd c
    by (auto simp add: insert_yavs_alt Let_def split: sum.splits if_splits)
qed

text \<open>The converse: when every step goes through, the call returns.\<close>

lemma insert_ok:
  assumes "get_header_info fs p = Inr (n, d)" and "int (length emb) = d"
      and "length (case rid of None \<Rightarrow> uuid_bytes u | Some r \<Rightarrow> r) = 16"
      and "pack_f packf d emb = Inr eb" and "len md < 2 ^ 32" and "payload md = Inr pb"
      and "n + 1 < 2 ^ 64" and "fs p = Some c"
  shows "insert_yavs packf fs p emb md rid u
           = (None, fs(p \<mapsto> take 8 c @ le_bytes 8 (nat (n + 1)) @ drop 16 c
                            @ (case rid of None \<Rightarrow> uuid_bytes u | Some r \<Rightarrow> r)
                            @ eb @ le_bytes 4 (nat (len md)) @ pb))"
proof -
  have "pack_each packf emb = Inr eb"
    using assms(2,4) by (simp add: pack_f_def split: if_splits)
  with assms show ?thesis
    by (simp add: insert_yavs_alt)
qed

text \<open>
  When the metadata cannot be written (a text that UTF-8 cannot encode), the identifier,
  the embedding and the length field are in the file already, and the count is not
  updated.
\<close>

lemma insert_unwritable_metadata:
  assumes "get_header_info fs p = Inr (n, d)" and "int (length emb) = d"
      and "length (case rid of None \<Rightarrow> uuid_bytes u | Some r \<Rightarrow> r) = 16"
      and "pack_f packf d emb = Inr eb" and "len md < 2 ^ 32" and "payload md = Inl e"
      and "fs p = Some c"
  shows "insert_yavs packf fs p emb md rid u
           = (Some e, fs(p \<mapsto> c @ (case rid of None \<Rightarrow> uuid_bytes u | Some r \<Rightarrow> r)
                              @ eb @ le_bytes 4 (nat (len md))))"
proof -
  have "pack_each packf emb = Inr eb"
    using assms(2,4) by (simp add: pack_f_def split: if_splits)
  with assms show ?thesis
    by (simp add: insert_yavs_alt)
qed

lemma header_after_patch:
  assumes "fs p = Some c" and "get_header_info fs p = Inr (n, d)"
      and "0 \<le> m" and "m < 2 ^ 64"
  shows "get_header_info (fs(p \<mapsto> take 8 c @ le_bytes 8 (nat m) @ drop 16 c @ app)) p
           = Inr (m, d)"
proof -
  have "nat m < 256 ^ 8" using assms(3,4) by simp
  then have v: "le_value (le_bytes 8 (nat m)) = nat m" by (rule le_value_le_bytes)
  have l: "20 \<le> length c" using header_ok_length [OF assms(2)] assms(1) by auto
  have m4: "take 4 c = MAGIC" and v4: "le_value (take 4 (drop 4 c)) = Suc 0"
    and d4: "int (le_value (take 4 (drop 16 c))) = d"
    using assms(1,2) by (auto simp add: get_header_info_alt split: if_splits)
  show ?thesis
    using l m4 v4 d4 v assms(3)
    by (simp add: get_header_info_alt min_def take_drop)
qed

lemma insert_success_header:
  assumes "get_header_info fs p = Inr (n, d)"
      and "insert_yavs packf fs p emb md rid u = (None, fs')"
  shows "get_header_info fs' p = Inr (n + 1, d)"
proof -
  from insert_success [OF assms(2)] assms(1)
  obtain c app where c: "fs p = Some c" "0 \<le> n" "n + 1 < 2 ^ 64"
    "fs' = fs(p \<mapsto> take 8 c @ le_bytes 8 (nat (n + 1)) @ drop 16 c @ app)"
    by force
  show ?thesis
    unfolding c(4) using c(1) assms(1) c(2,3) by (intro header_after_patch) simp_all
qed

lemma inserts_header:
  "get_header_info fs p = Inr (n, d) \<Longrightarrow> inserts packf fs p calls = (None, fs')
     \<Longrightarrow> get_header_info fs' p = Inr (n + int (length calls), d)"
proof (induction calls arbitrary: fs n)
  case Nil
  then show ?case by simp
next
  case (Cons call calls)
  obtain emb md rid u where call: "call = (emb, md, rid, u)"
    by (cases call) auto
  from Cons.prems(2) call obtain fs1
    where step: "insert_yavs packf fs p emb md rid u = (None, fs1)"
      and rest: "inserts packf fs1 p calls = (None, fs')"
    by (auto split: prod.splits option.splits)
  from insert_success_header [OF Cons.prems(1) step]
  have "get_header_info fs1 p = Inr (n + 1, d)" .
  from Cons.IH [OF this rest] show ?case by simp
qed

text \<open>
  Whatever a call of \<^verbatim>\<open>insert\<close> does, it leaves bytes 0 to 7 and 16 to 35 of a file
  of at least 36 bytes as they are, and the file does not shrink.
\<close>

lemma insert_keeps_header_fields:
  assumes "fs p = Some c" and "36 \<le> length c"
  shows "\<exists>c'. snd (insert_yavs packf fs p emb md rid u) p = Some c' \<and> length c \<le> length c'
            \<and> take 8 c' = take 8 c \<and> take 20 (drop 16 c') = take 20 (drop 16 c)"
  using assms
  by (auto simp add: insert_yavs_alt Let_def split: sum.splits prod.splits)

lemma run_ops_keeps_header_fields:
  assumes "fs p = Some c" and "36 \<le> length c"
  shows "\<exists>c'. run_ops packf fs p ops p = Some c' \<and> length c \<le> length c'
            \<and> take 8 c' = take 8 c \<and> take 20 (drop 16 c') = take 20 (drop 16 c)"
  using assms
proof (induction ops arbitrary: fs c)
  case Nil
  then show ?case by simp
next
  case (Cons op ops)
  show ?case
  proof (cases op)
    case (OpInsert emb md rid u)
    let ?fs1 = "snd (insert_yavs packf fs p emb md rid u)"
    from insert_keeps_header_fields [where fs = fs and p = p and c = c, OF Cons.prems,
        of packf emb md rid u]
    obtain c1 where c1: "?fs1 p = Some c1" "length c \<le> length c1"
      "take 8 c1 = take 8 c" "take 20 (drop 16 c1) = take 20 (drop 16 c)"
      by blast
    from c1(2) Cons.prems(2) have "36 \<le> length c1" by simp
    from Cons.IH [where fs = ?fs1 and c = c1, OF c1(1) this] c1 OpInsert show ?thesis by auto
  next
    case OpGetHeaderInfo
    with Cons.IH [where fs = fs and c = c, OF Cons.prems] show ?thesis by simp
  qed
qed

section \<open>The claims\<close>

subsection \<open>Creating a store\<close>







subsection \<open>Rejected headers\<close>

text \<open>
  Claim C5. On an existing file whose first 4 bytes (or fewer, when the file is shorter)
  are not \<^verbatim>\<open>YAVS\<close>, \<^verbatim>\<open>get_header_info\<close> raises the \<open>ValueError\<close> with the
  message \<^verbatim>\<open>Not a valid YAVS file.\<close>; with the magic in place and a version field that
  reads as a value other than 1, it raises the \<open>ValueError\<close> whose message names the
  expected version 1 and the version found.
\<close>

theorem get_header_info_rejects_magic_and_version:
  assumes "fs filename = Some c"
  shows "(take 4 c \<noteq> MAGIC \<longrightarrow>
            get_header_info fs filename = Inl (ValueError ''Not a valid YAVS file.'')) \<and>
         (take 4 c = MAGIC \<and> unpack_I (take 4 (drop 4 c)) = Inr version \<and> version \<noteq> 1 \<longrightarrow>
            get_header_info fs filename
              = Inl (ValueError (''File version mismatch. Expected 1, got '' @ str version
                                 @ ''.'')))"
  using assms
  by (auto simp add: get_header_info_alt unpack_I_def split: if_splits)

theorem get_header_info_rejects_magic_and_version_witness:
  "get_header_info [''db.yavs'' \<mapsto> [0x59, 0x41, 0x56, 0x58, 1, 0, 0, 0]] ''db.yavs''
     = Inl (ValueError ''Not a valid YAVS file.'') \<and>
   get_header_info [''db.yavs'' \<mapsto> [0x59, 0x41, 0x56, 0x53, 2, 1, 0, 0]] ''db.yavs''
     = Inl (ValueError ''File version mismatch. Expected 1, got 258.'')"
proof -
  have s: "str 258 = ''258''" by code_simp
  have u: "unpack_I [2, 1, 0, 0] = Inr 258" by code_simp
  show ?thesis
    using get_header_info_rejects_magic_and_version
            [of "[''db.yavs'' \<mapsto> [0x59, 0x41, 0x56, 0x58, 1, 0, 0, 0]]" "''db.yavs''"
                "[0x59, 0x41, 0x56, 0x58, 1, 0, 0, 0]" 258]
          get_header_info_rejects_magic_and_version
            [of "[''db.yavs'' \<mapsto> [0x59, 0x41, 0x56, 0x53, 2, 1, 0, 0]]" "''db.yavs''"
                "[0x59, 0x41, 0x56, 0x53, 2, 1, 0, 0]" 258]
    by (simp add: MAGIC_def s u)
qed

subsection \<open>Errors of \<^verbatim>\<open>insert\<close> before the file is opened\<close>

text \<open>
  Claim C7. On a store whose header reads as \<open>(n_records, dim)\<close>, \<^verbatim>\<open>insert\<close> with
  an embedding of another length raises the \<open>ValueError\<close> whose message gives \<open>dim\<close>
  as expected and the embedding's length as given, and the file system is the one before
  the call: the file's size and its record count are unchanged.
\<close>

theorem insert_dimension_mismatch:
  assumes "get_header_info fs filename = Inr (n_records, dim)"
      and "int (length embedding) \<noteq> dim"
  shows "insert_yavs packf fs filename embedding metadata record_id uuid4
           = (Some (ValueError (''Embedding dimension mismatch. Expected '' @ str dim
                                @ '', got '' @ str (int (length embedding)))), fs)"
  using assms by (simp add: insert_yavs_def)

theorem insert_dimension_mismatch_witness:
  "get_header_info (snd (create Map.empty ''db.yavs'' 2)) ''db.yavs'' = Inr (0, 2) \<and>
   insert_yavs pack_value (snd (create Map.empty ''db.yavs'' 2)) ''db.yavs''
       [Single 0x3F800000, Single 0xC0200000, Single 0] (Bytes [1, 2, 3]) None 0
     = (Some (ValueError ''Embedding dimension mismatch. Expected 2, got 3''),
        snd (create Map.empty ''db.yavs'' 2))"
proof -
  have h: "get_header_info (snd (create Map.empty ''db.yavs'' 2)) ''db.yavs'' = Inr (0, 2)"
    by code_simp
  have s: "str 2 = ''2''" "str 3 = ''3''" by code_simp+
  show ?thesis
    using h insert_dimension_mismatch
              [OF h, of "[Single 0x3F800000, Single 0xC0200000, Single 0]" pack_value
                 "Bytes [1, 2, 3]" None 0]
    by (simp add: s)
qed

text \<open>
  Claim C10. On a store whose header reads, whenever the embedding has the wrong length,
  or a record identifier is given that is not 16 bytes long, or the embedding cannot be
  packed, \<^verbatim>\<open>insert\<close> raises and the file system is the one before the call: the three
  checks and the packing come before \<^verbatim>\<open>open(filename, "ab")\<close>.
\<close>

theorem insert_validation_errors_leave_file_unchanged:
  assumes "get_header_info fs filename = Inr (n_records, dim)"
      and "int (length embedding) \<noteq> dim
           \<or> (\<exists>r. record_id = Some r \<and> length r \<noteq> 16)
           \<or> (\<exists>e. pack_f packf dim embedding = Inl e)"
  shows "\<exists>e. insert_yavs packf fs filename embedding metadata record_id uuid4 = (Some e, fs)"
proof -
  have "pack_f packf dim embedding = Inl e \<Longrightarrow> int (length embedding) = dim
          \<Longrightarrow> pack_each packf embedding = Inl e" for e
    using header_ok_length [OF assms(1)] by (auto simp add: pack_f_def split: if_splits)
  with assms show ?thesis
    by (auto simp add: insert_yavs_alt)
qed

theorem insert_validation_errors_leave_file_unchanged_witness:
  "(\<exists>e. insert_yavs pack_value (snd (create Map.empty ''db.yavs'' 2)) ''db.yavs''
          [Single 0x3F800000] (Bytes [1, 2, 3]) None 0
        = (Some e, snd (create Map.empty ''db.yavs'' 2))) \<and>
   (\<exists>e. insert_yavs pack_value (snd (create Map.empty ''db.yavs'' 2)) ''db.yavs''
          [Single 0x3F800000, Single 0xC0200000] (Bytes [1, 2, 3]) (Some [7]) 0
        = (Some e, snd (create Map.empty ''db.yavs'' 2))) \<and>
   (\<exists>e. insert_yavs pack_value (snd (create Map.empty ''db.yavs'' 2)) ''db.yavs''
          [Single 0x3F800000, NotAFloat] (Bytes [1, 2, 3]) None 0
        = (Some e, snd (create Map.empty ''db.yavs'' 2)))"
proof -
  have h: "get_header_info (snd (create Map.empty ''db.yavs'' 2)) ''db.yavs'' = Inr (0, 2)"
    by code_simp
  have p: "pack_f pack_value 2 [Single 0x3F800000, NotAFloat] = Inl StructError"
    by (simp add: pack_f_def pack_value_def)
  show ?thesis
    using insert_validation_errors_leave_file_unchanged
            [OF h, of "[Single 0x3F800000]" None pack_value "Bytes [1, 2, 3]" 0]
          insert_validation_errors_leave_file_unchanged
            [OF h, of "[Single 0x3F800000, Single 0xC0200000]" "Some [7]" pack_value
               "Bytes [1, 2, 3]" 0]
          insert_validation_errors_leave_file_unchanged
            [OF h, of "[Single 0x3F800000, NotAFloat]" None pack_value "Bytes [1, 2, 3]" 0]
    by (simp add: p)
qed

subsection \<open>The record identifier\<close>



subsection \<open>Text metadata\<close>

lemma le_bytes_4:
  "le_bytes 4 v = [of_nat (v mod 256), of_nat (v div 256 mod 256),
                   of_nat (v div 256 div 256 mod 256),
                   of_nat (v div 256 div 256 div 256 mod 256)]"
proof -
  have "(4::nat) = Suc (Suc (Suc (Suc 0)))" by simp
  then show ?thesis by (simp only: le_bytes.simps)
qed

lemma pack_value_one: "pack_value (Single 0x3F800000) = Inr [0, 0, 0x80, 0x3F]"
  by (simp add: pack_value_def le_bytes_4)

text \<open>
  With a text as metadata, a call that goes through stores the UTF-8 encoding of the
  text, and before it a length field that holds the number of code points of the text.
\<close>

lemma insert_text_ok:
  assumes "get_header_info fs p = Inr (n, d)" and "int (length emb) = d"
      and "length (case rid of None \<Rightarrow> uuid_bytes u | Some r \<Rightarrow> r) = 16"
      and "pack_f packf d emb = Inr eb" and "int (length cs) < 2 ^ 32" and "utf8 cs = Inr pb"
      and "n + 1 < 2 ^ 64" and "fs p = Some c"
  shows "insert_yavs packf fs p emb (Text cs) rid u
           = (None, fs(p \<mapsto> take 8 c @ le_bytes 8 (nat (n + 1)) @ drop 16 c
                            @ (case rid of None \<Rightarrow> uuid_bytes u | Some r \<Rightarrow> r)
                            @ eb @ le_bytes 4 (length cs) @ pb))"
  using insert_ok [OF assms(1-4), of "Text cs" pb c] assms(5-8)
  by (simp add: len_def payload_def)

text \<open>
  Claim C1, evaluated on the store created with dimension 1: \<^verbatim>\<open>insert\<close> of the
  embedding \<open>[1.0]\<close> with the one-character text U+00E9 as metadata, no record
  identifier given and \<^verbatim>\<open>uuid4\<close> drawing 0. The call succeeds and the file is the
  36-byte header with count 1, the 16-byte identifier, the 4 bytes of 1.0, the length
  field and the payload. The payload is the UTF-8 encoding \<open>C3 A9\<close> of the text, 2
  bytes; the length field holds 1 and reads back as 1, the number of code points:
  \<^verbatim>\<open>meta_len = len(metadata)\<close> is taken from the text before it is encoded.
\<close>

theorem insert_text_length_field_counts_code_points:
  "insert_yavs pack_value (snd (create Map.empty ''db.yavs'' 1)) ''db.yavs''
       [Single 0x3F800000] (Text [0xE9]) None 0
     = (None, (snd (create Map.empty ''db.yavs'' 1))
                (''db.yavs'' \<mapsto>
                   [0x59, 0x41, 0x56, 0x53] @ [1, 0, 0, 0] @ [1, 0, 0, 0, 0, 0, 0, 0]
                   @ [1, 0, 0, 0] @ [0, 0, 0, 0, 0, 0, 0, 0, 0, 0, 0, 0, 0, 0, 0, 0]
                   @ [0, 0, 0, 0, 0, 0, 0, 0, 0, 0, 0, 0, 0, 0, 0, 0]
                   @ [0, 0, 0x80, 0x3F] @ [1, 0, 0, 0] @ [0xC3, 0xA9])) \<and>
   utf8 [0xE9] = Inr [0xC3, 0xA9] \<and>
   unpack_I [1, 0, 0, 0] = Inr 1 \<and>
   length [0xC3, 0xA9 :: byte] = 2"
proof -
  let ?fs = "snd (create Map.empty ''db.yavs'' 1)"
  have h: "get_header_info ?fs ''db.yavs'' = Inr (0, 1)"
    by code_simp
  have c: "?fs ''db.yavs''
             = Some [0x59, 0x41, 0x56, 0x53, 1, 0, 0, 0, 0, 0, 0, 0, 0, 0, 0, 0,
                     1, 0, 0, 0, 0, 0, 0, 0, 0, 0, 0, 0, 0, 0, 0, 0, 0, 0, 0, 0]"
    by code_simp
  have u: "uuid_bytes 0 = [0, 0, 0, 0, 0, 0, 0, 0, 0, 0, 0, 0, 0, 0, 0, 0]"
    by code_simp
  have e: "payload (Text [0xE9]) = Inr [0xC3, 0xA9]"
    by code_simp
  have l: "le_bytes 4 (nat (len (Text [0xE9]))) = [1, 0, 0, 0]"
    by code_simp
  have l8: "le_bytes 8 (nat (0 + 1)) = [1, 0, 0, 0, 0, 0, 0, 0]"
    by code_simp
  have pe: "pack_each pack_value [Single 0x3F800000] = Inr [0, 0, 0x80, 0x3F]"
    by (simp add: pack_value_one)
  have lm: "len (Text [0xE9]) < 2 ^ 32"
    by (simp add: len_def)
  have "insert_yavs pack_value ?fs ''db.yavs'' [Single 0x3F800000] (Text [0xE9]) None 0
          = (None, ?fs(''db.yavs'' \<mapsto>
               take 8 [0x59, 0x41, 0x56, 0x53, 1, 0, 0, 0, 0, 0, 0, 0, 0, 0, 0, 0,
                       1, 0, 0, 0, 0, 0, 0, 0, 0, 0, 0, 0, 0, 0, 0, 0, 0, 0, 0, 0]
               @ [1, 0, 0, 0, 0, 0, 0, 0]
               @ drop 16 [0x59, 0x41, 0x56, 0x53, 1, 0, 0, 0, 0, 0, 0, 0, 0, 0, 0, 0,
                          1, 0, 0, 0, 0, 0, 0, 0, 0, 0, 0, 0, 0, 0, 0, 0, 0, 0, 0, 0]
               @ [0, 0, 0, 0, 0, 0, 0, 0, 0, 0, 0, 0, 0, 0, 0, 0]
               @ [0, 0, 0x80, 0x3F] @ [1, 0, 0, 0] @ [0xC3, 0xA9]))"
    unfolding insert_yavs_alt h
    by (simp only: prod.case sum.case pe Let_def e l l8 lm c option.sel u option.case) simp
  moreover have "utf8 [0xE9] = Inr [0xC3, 0xA9]"
    by code_simp
  moreover have "unpack_I [1, 0, 0, 0] = Inr 1"
    by code_simp
  ultimately show ?thesis by simp
qed

subsection \<open>The record count and the header over sequences of calls\<close>

text \<open>
  Claim C6. After \<^verbatim>\<open>create\<close> has returned, and then every one of a sequence of
  \<open>N\<close> calls of \<^verbatim>\<open>insert\<close> has returned, \<^verbatim>\<open>get_header_info\<close> returns the
  record count \<open>N\<close> (and the dimension of the store).
\<close>

theorem inserts_record_count:
  assumes "create fs filename dim = (None, fs0)"
      and "inserts packf fs0 filename calls = (None, fs1)"
  shows "get_header_info fs1 filename = Inr (int (length calls), dim)"
proof -
  have r: "0 \<le> dim \<and> dim < 2 ^ 32"
    using assms(1) create_out_of_range [of dim fs filename] by auto
  then have "get_header_info fs0 filename = Inr (0, dim)"
    using assms(1) by (auto simp add: create_in_range header_of_fresh_store)
  from inserts_header [OF this assms(2)] show ?thesis by simp
qed

theorem inserts_record_count_witness:
  "fst (create Map.empty ''db.yavs'' 1) = None \<and>
   fst (inserts pack_value (snd (create Map.empty ''db.yavs'' 1)) ''db.yavs''
          [([Single 0], Text [0xE9], None, 7),
           ([Single 0], Bytes [1, 2, 3], Some (replicate 16 9), 0)]) = None \<and>
   get_header_info
     (snd (inserts pack_value (snd (create Map.empty ''db.yavs'' 1)) ''db.yavs''
             [([Single 0], Text [0xE9], None, 7),
              ([Single 0], Bytes [1, 2, 3], Some (replicate 16 9), 0)])) ''db.yavs''
     = Inr (2, 1)"
proof -
  let ?fs0 = "snd (create Map.empty ''db.yavs'' 1)"
  let ?calls = "[([Single 0], Text [0xE9], None, 7),
                 ([Single 0], Bytes [1, 2, 3], Some (replicate 16 9), 0)]"
  have f1: "fst (create Map.empty ''db.yavs'' 1) = None"
    by code_simp
  have f2: "fst (inserts pack_value ?fs0 ''db.yavs'' ?calls) = None"
    by code_simp
  have h1: "create Map.empty ''db.yavs'' 1 = (None, ?fs0)"
    using f1 by (intro prod_eqI) simp_all
  have h2: "inserts pack_value ?fs0 ''db.yavs'' ?calls
              = (None, snd (inserts pack_value ?fs0 ''db.yavs'' ?calls))"
    using f2 by (intro prod_eqI) simp_all
  show ?thesis
    using f1 f2 inserts_record_count [OF h1 h2] by simp
qed

text \<open>
  Claim C9. After \<^verbatim>\<open>create(path, dim)\<close> has returned, take any sequence of
  \<^verbatim>\<open>insert\<close> and \<^verbatim>\<open>get_header_info\<close> calls on the path, returning or raising.
  In the file they leave, the magic, the version, the dimension and the reserved bytes
  are those that \<^verbatim>\<open>create\<close> wrote. And a call of \<^verbatim>\<open>insert\<close> on that file that
  returns leaves the file with bytes 0 to 7 and every byte from 16 on as they were, the
  8 bytes at offset 8 holding the previous count plus 1, and new bytes after the old end.
\<close>

theorem header_fixed_and_insert_appends:
  assumes "create fs filename dim = (None, fs0)"
      and "fs1 = run_ops packf fs0 filename ops"
  shows "(\<exists>c. fs1 filename = Some c
            \<and> take 4 c = MAGIC
            \<and> Inr (take 4 (drop 4 c)) = pack_I VERSION
            \<and> Inr (take 4 (drop 16 c)) = pack_I dim
            \<and> take 16 (drop 20 c) = replicate RESERVED_SIZE 0) \<and>
         (\<forall>embedding metadata record_id uuid fs2.
            insert_yavs packf fs1 filename embedding metadata record_id uuid = (None, fs2) \<longrightarrow>
            (\<exists>c n app. fs1 filename = Some c
               \<and> get_header_info fs1 filename = Inr (n, dim)
               \<and> fs2 = fs1(filename \<mapsto> take 8 c @ le_bytes 8 (nat (n + 1)) @ drop 16 c @ app)
               \<and> unpack_Q (le_bytes 8 (nat (n + 1))) = Inr (n + 1)))"
proof -
  have r: "0 \<le> dim" "dim < 2 ^ 32"
    using assms(1) create_out_of_range [of dim fs filename] by auto
  let ?c0 = "MAGIC @ le_bytes 4 (nat VERSION) @ le_bytes 8 0 @ le_bytes 4 (nat dim)
               @ replicate 16 0"
  have c0: "fs0 filename = Some ?c0"
    using assms(1) r by (auto simp add: create_in_range)
  have "36 \<le> length ?c0" by simp
  from run_ops_keeps_header_fields [where fs = fs0 and c = ?c0, OF c0 this, of packf ops]
  obtain c where c: "fs1 filename = Some c" "36 \<le> length c"
    "take 8 c = take 8 ?c0" "take 20 (drop 16 c) = take 20 (drop 16 ?c0)"
    unfolding assms(2) by auto
  have t8: "take 8 c = MAGIC @ le_bytes 4 (nat VERSION)"
    using c(3) by simp
  have t20: "take 20 (drop 16 c) = le_bytes 4 (nat dim) @ replicate 16 0"
    using c(4) by simp
  have f1: "take 4 c = MAGIC"
  proof -
    have "take 4 c = take 4 (take 8 c)" by simp
    then show ?thesis unfolding t8 by simp
  qed
  have f2: "take 4 (drop 4 c) = le_bytes 4 (nat VERSION)"
  proof -
    have "take 4 (drop 4 c) = drop 4 (take 8 c)" by (simp add: drop_take)
    then show ?thesis unfolding t8 by simp
  qed
  have f3: "take 4 (drop 16 c) = le_bytes 4 (nat dim)"
  proof -
    have "take 4 (drop 16 c) = take 4 (take 20 (drop 16 c))" by simp
    then show ?thesis unfolding t20 by simp
  qed
  have f4: "take 16 (drop 20 c) = replicate 16 0"
  proof -
    have "take 16 (drop 20 c) = drop 4 (take 20 (drop 16 c))" by (simp add: drop_take)
    then show ?thesis unfolding t20 by simp
  qed
  have A: "\<exists>c. fs1 filename = Some c
            \<and> take 4 c = MAGIC
            \<and> Inr (take 4 (drop 4 c)) = pack_I VERSION
            \<and> Inr (take 4 (drop 16 c)) = pack_I dim
            \<and> take 16 (drop 20 c) = replicate RESERVED_SIZE 0"
    using c(1) f1 f2 f3 f4 r
    by (simp add: pack_I_def VERSION_def RESERVED_SIZE_def)
  have hd: "\<exists>n. get_header_info fs1 filename = Inr (n, dim)"
    using c(1,2) f1 f2 f3 r by (simp add: get_header_info_alt le_value_dim)
  have B: "\<exists>c n app. fs1 filename = Some c
               \<and> get_header_info fs1 filename = Inr (n, dim)
               \<and> fs2 = fs1(filename \<mapsto> take 8 c @ le_bytes 8 (nat (n + 1)) @ drop 16 c @ app)
               \<and> unpack_Q (le_bytes 8 (nat (n + 1))) = Inr (n + 1)"
    if ok: "insert_yavs packf fs1 filename embedding metadata record_id uuid = (None, fs2)"
    for embedding metadata record_id uuid fs2
  proof -
    from insert_success [OF ok] obtain c' n d app
      where s: "fs1 filename = Some c'" "get_header_info fs1 filename = Inr (n, d)"
        "0 \<le> n" "n + 1 < 2 ^ 64"
        "fs2 = fs1(filename \<mapsto> take 8 c' @ le_bytes 8 (nat (n + 1)) @ drop 16 c' @ app)"
      by blast
    from s(2) hd have d: "d = dim" by auto
    have "nat (n + 1) < 256 ^ 8" using s(3,4) by simp
    then have "le_value (le_bytes 8 (nat (n + 1))) = nat (n + 1)" by (rule le_value_le_bytes)
    then have "unpack_Q (le_bytes 8 (nat (n + 1))) = Inr (n + 1)"
      using s(3) by (simp add: unpack_Q_def)
    with s d show ?thesis by blast
  qed
  from A B show ?thesis by blast
qed

theorem header_fixed_and_insert_appends_witness:
  "fst (create Map.empty ''db.yavs'' 1) = None \<and>
   (\<exists>c. run_ops pack_value (snd (create Map.empty ''db.yavs'' 1)) ''db.yavs''
          [OpInsert [Single 0] (Text [0xE9]) None 7, OpGetHeaderInfo,
           OpInsert [Single 0, Single 0] (Bytes [1]) None 8] ''db.yavs'' = Some c
      \<and> take 4 c = MAGIC
      \<and> Inr (take 4 (drop 4 c)) = pack_I VERSION
      \<and> Inr (take 4 (drop 16 c)) = pack_I 1
      \<and> take 16 (drop 20 c) = replicate RESERVED_SIZE 0) \<and>
   (\<exists>c n app fs2.
      insert_yavs pack_value
        (run_ops pack_value (snd (create Map.empty ''db.yavs'' 1)) ''db.yavs''
           [OpInsert [Single 0] (Text [0xE9]) None 7, OpGetHeaderInfo,
            OpInsert [Single 0, Single 0] (Bytes [1]) None 8])
        ''db.yavs'' [Single 0] (Bytes [1, 2, 3]) (Some (replicate 16 9)) 0 = (None, fs2)
      \<and> run_ops pack_value (snd (create Map.empty ''db.yavs'' 1)) ''db.yavs''
          [OpInsert [Single 0] (Text [0xE9]) None 7, OpGetHeaderInfo,
           OpInsert [Single 0, Single 0] (Bytes [1]) None 8] ''db.yavs'' = Some c
      \<and> get_header_info
          (run_ops pack_value (snd (create Map.empty ''db.yavs'' 1)) ''db.yavs''
             [OpInsert [Single 0] (Text [0xE9]) None 7, OpGetHeaderInfo,
              OpInsert [Single 0, Single 0] (Bytes [1]) None 8]) ''db.yavs'' = Inr (n, 1)
      \<and> fs2 = (run_ops pack_value (snd (create Map.empty ''db.yavs'' 1)) ''db.yavs''
                 [OpInsert [Single 0] (Text [0xE9]) None 7, OpGetHeaderInfo,
                  OpInsert [Single 0, Single 0] (Bytes [1]) None 8])
                (''db.yavs'' \<mapsto> take 8 c @ le_bytes 8 (nat (n + 1)) @ drop 16 c @ app)
      \<and> unpack_Q (le_bytes 8 (nat (n + 1))) = Inr (n + 1))"
proof -
  let ?fs0 = "snd (create Map.empty ''db.yavs'' 1)"
  let ?ops = "[OpInsert [Single 0] (Text [0xE9]) None 7, OpGetHeaderInfo,
               OpInsert [Single 0, Single 0] (Bytes [1]) None 8]"
  let ?fs1 = "run_ops pack_value ?fs0 ''db.yavs'' ?ops"
  let ?ins = "insert_yavs pack_value ?fs1 ''db.yavs'' [Single 0] (Bytes [1, 2, 3])
                (Some (replicate 16 9)) 0"
  have f1: "fst (create Map.empty ''db.yavs'' 1) = None"
    by code_simp
  have h1: "create Map.empty ''db.yavs'' 1 = (None, ?fs0)"
    using f1 by (intro prod_eqI) simp_all
  have f2: "fst ?ins = None"
    by code_simp
  have h2: "?ins = (None, snd ?ins)"
    using f2 by (intro prod_eqI) simp_all
  note t = header_fixed_and_insert_appends [OF h1 refl, of pack_value ?ops]
  from t have A: "\<exists>c. ?fs1 ''db.yavs'' = Some c
      \<and> take 4 c = MAGIC
      \<and> Inr (take 4 (drop 4 c)) = pack_I VERSION
      \<and> Inr (take 4 (drop 16 c)) = pack_I 1
      \<and> take 16 (drop 20 c) = replicate RESERVED_SIZE 0"
    by (rule conjunct1)
  from t have "\<forall>embedding metadata record_id uuid fs2.
            insert_yavs pack_value ?fs1 ''db.yavs'' embedding metadata record_id uuid
              = (None, fs2) \<longrightarrow>
            (\<exists>c n app. ?fs1 ''db.yavs'' = Some c
               \<and> get_header_info ?fs1 ''db.yavs'' = Inr (n, 1)
               \<and> fs2 = ?fs1(''db.yavs'' \<mapsto> take 8 c @ le_bytes 8 (nat (n + 1)) @ drop 16 c @ app)
               \<and> unpack_Q (le_bytes 8 (nat (n + 1))) = Inr (n + 1))"
    by (rule conjunct2)
  with h2 have B: "\<exists>c n app. ?fs1 ''db.yavs'' = Some c
               \<and> get_header_info ?fs1 ''db.yavs'' = Inr (n, 1)
               \<and> snd ?ins = ?fs1(''db.yavs'' \<mapsto> take 8 c @ le_bytes 8 (nat (n + 1)) @ drop 16 c @ app)
               \<and> unpack_Q (le_bytes 8 (nat (n + 1))) = Inr (n + 1)"
    by blast
  from f1 A B h2 show ?thesis by blast
qed

subsection \<open>The driver\<close>

lemma namespace_append: "map_of yavs_namespace ''append'' = None"
  by code_simp

lemma namespace_insert: "map_of yavs_namespace ''insert'' = Some Insert"
  by code_simp

lemma call_append:
  "call_yavs3 packf ''append'' fs a1 a2 a3 u = (Some (AttributeError ''append''), fs)"
  unfolding call_yavs3_def namespace_append by simp

text \<open>
  Claim C2, evaluated: the driver creates the store when it is absent and then calls
  \<^verbatim>\<open>yavs.append\<close>. The library has no attribute of that name (its operation is
  \<^verbatim>\<open>insert\<close>), so the first call raises \<open>AttributeError\<close>; no
  embedding is appended, and the file system is the one after the optional
  \<^verbatim>\<open>create\<close>.
\<close>

theorem example_calls_undefined_append:
  "fst (example model_encode packf fs u1 u2) = Some (AttributeError ''append'') \<and>
   snd (example model_encode packf fs u1 u2)
     = (case fs ''db.yavs'' of None \<Rightarrow> snd (create fs ''db.yavs'' 384) | Some c \<Rightarrow> fs) \<and>
   map_of yavs_namespace ''append'' = None \<and>
   map_of yavs_namespace ''insert'' = Some Insert"
proof (cases "fs ''db.yavs''")
  case None
  then show ?thesis
    unfolding example_def Let_def call_append namespace_append namespace_insert
    by (simp add: create_in_range)
next
  case (Some c)
  then show ?thesis
    unfolding example_def Let_def call_append namespace_append namespace_insert
    by simp
qed

end
